theory Spec2Isabelle
  imports Complex_Main
begin

section \<open>Turtle adventure: the per-tick entity simulation\<close>

text \<open>
  A shallow embedding of \<^verbatim>\<open>turtle_adventure.py\<close>. Python numbers (int or float) are
  idealised as mathematical reals: comparisons, sums and quotients are the exact ones,
  and \<^verbatim>\<open>v ** 0.5\<close> is the real square root. Rounding of IEEE doubles is outside the
  model. Objects are records, an update method takes the game and the object and
  returns both, updated.
\<close>

subsection \<open>Data model\<close>

text \<open>\<^verbatim>\<open>Waypoint\<close>: a position and the private flag \<^verbatim>\<open>__active\<close>.\<close>

record Waypoint =
  wp_x :: real
  wp_y :: real
  wp_active :: bool

text \<open>\<^verbatim>\<open>Home\<close>: a position and a size.\<close>

record Home =
  home_x :: real
  home_y :: real
  home_size :: real

text \<open>
  The part of a \<^verbatim>\<open>RawTurtle\<close> that \<^verbatim>\<open>Player\<close> uses: its position and its heading.
  The heading is kept in radians (the library keeps degrees; only its cosine and sine
  are ever used, so the unit and the reduction modulo a full circle do not matter).
\<close>

record Turtle =
  xcor :: real
  ycor :: real
  heading :: real

text \<open>\<^verbatim>\<open>Player\<close>: the turtle and the private \<^verbatim>\<open>__speed\<close>. The properties \<^verbatim>\<open>x\<close> and
  \<^verbatim>\<open>y\<close> of the player are overridden to read the turtle.\<close>

record Player =
  turtle :: Turtle
  player_speed :: real

definition Player_x :: "Player \<Rightarrow> real" where
  "Player_x p = xcor (turtle p)"

definition Player_y :: "Player \<Rightarrow> real" where
  "Player_y p = ycor (turtle p)"

text \<open>
  \<^verbatim>\<open>TurtleAdventureGame\<close>, as far as the elements read and write it: the waypoint, the
  home, the player, the size of the canvas as \<^verbatim>\<open>winfo_width()\<close> and
  \<^verbatim>\<open>winfo_height()\<close> report it, the running flag that \<^verbatim>\<open>stop()\<close> clears, and the
  texts drawn by \<^verbatim>\<open>game_over_win\<close> and \<^verbatim>\<open>game_over_lose\<close>, oldest first.
\<close>

record game =
  waypoint :: Waypoint
  home :: Home
  player :: Player
  winfo_width :: int
  winfo_height :: int
  is_running :: bool
  banners :: "string list"

text \<open>
  Modelled from the spec: \<^verbatim>\<open>Game.stop\<close> of \<^verbatim>\<open>gamelib\<close> is not part of the sources.
  It ends the dispatch of later ticks and returns normally (the caller goes on to draw
  its text), so it clears the running flag and nothing else.
\<close>

definition stop :: "game \<Rightarrow> game" where
  "stop g = g\<lparr>is_running := False\<rparr>"

definition game_over_win :: "game \<Rightarrow> game" where
  "game_over_win g = (let g1 = stop g in g1\<lparr>banners := banners g1 @ [''You Win'']\<rparr>)"

definition game_over_lose :: "game \<Rightarrow> game" where
  "game_over_lose g = (let g1 = stop g in g1\<lparr>banners := banners g1 @ [''You Lose'']\<rparr>)"

subsection \<open>Waypoint and Home\<close>

definition activate :: "Waypoint \<Rightarrow> real \<Rightarrow> real \<Rightarrow> Waypoint" where
  "activate w x y = w\<lparr>wp_active := True, wp_x := x, wp_y := y\<rparr>"

definition deactivate :: "Waypoint \<Rightarrow> Waypoint" where
  "deactivate w = w\<lparr>wp_active := False\<rparr>"

definition Home_contains :: "Home \<Rightarrow> real \<Rightarrow> real \<Rightarrow> bool" where
  "Home_contains h x y =
     (let x1 = home_x h - home_size h / 2; x2 = home_x h + home_size h / 2;
          y1 = home_y h - home_size h / 2; y2 = home_y h + home_size h / 2
      in (x1 \<le> x \<and> x \<le> x2) \<and> (y1 \<le> y \<and> y \<le> y2))"

subsection \<open>Enemies\<close>

text \<open>
  \<^verbatim>\<open>Enemy\<close>: the position inherited from \<^verbatim>\<open>GameElement\<close>, the size and the colour.
  The variants extend this record with their own fields, as the subclasses do.
\<close>

record Enemy =
  en_x :: real
  en_y :: real
  en_size :: real
  en_color :: string

definition hits_player :: "game \<Rightarrow> 'a Enemy_scheme \<Rightarrow> bool" where
  "hits_player g e =
     ((en_x e - en_size e / 2 < Player_x (player g) \<and> Player_x (player g) < en_x e + en_size e / 2)
      \<and>
      (en_y e - en_size e / 2 < Player_y (player g) \<and> Player_y (player g) < en_y e + en_size e / 2))"

text \<open>A game whose player stands at the given point; used to state properties for
  every player position.\<close>

definition player_at :: "game \<Rightarrow> real \<Rightarrow> real \<Rightarrow> game" where
  "player_at g px py =
     g\<lparr>player := (player g)\<lparr>turtle := (turtle (player g))\<lparr>xcor := px, ycor := py\<rparr>\<rparr>\<rparr>"

subsection \<open>The turtle library, as far as the player uses it\<close>

text \<open>
  \<^verbatim>\<open>math.atan2(y, x)\<close>: the angle of the point \<open>(x, y)\<close>, in \<open>(-\<pi>, \<pi>]\<close>, and 0 at
  the origin.
\<close>

definition atan2 :: "real \<Rightarrow> real \<Rightarrow> real" where
  "atan2 y x =
     (if 0 < x then arctan (y / x)
      else if x < 0 \<and> 0 \<le> y then arctan (y / x) + pi
      else if x < 0 \<and> y < 0 then arctan (y / x) - pi
      else if 0 < y then pi / 2
      else if y < 0 then - (pi / 2)
      else 0)"

text \<open>
  \<^verbatim>\<open>RawTurtle.towards\<close>, \<^verbatim>\<open>setheading\<close>, \<^verbatim>\<open>forward\<close> and \<^verbatim>\<open>distance\<close> of the standard
  library: the angle of the line from the turtle to the point, turning to an angle,
  moving along the heading, and the Euclidean distance to a point.
\<close>

definition towards :: "Turtle \<Rightarrow> real \<Rightarrow> real \<Rightarrow> real" where
  "towards t x y = atan2 (y - ycor t) (x - xcor t)"

definition setheading :: "Turtle \<Rightarrow> real \<Rightarrow> Turtle" where
  "setheading t to_angle = t\<lparr>heading := to_angle\<rparr>"

definition forward :: "Turtle \<Rightarrow> real \<Rightarrow> Turtle" where
  "forward t d = t\<lparr>xcor := xcor t + d * cos (heading t), ycor := ycor t + d * sin (heading t)\<rparr>"

definition distance :: "Turtle \<Rightarrow> real \<Rightarrow> real \<Rightarrow> real" where
  "distance t x y = sqrt ((x - xcor t)\<^sup>2 + (y - ycor t)\<^sup>2)"

subsection \<open>Player\<close>

text \<open>
  \<^verbatim>\<open>Player.update\<close>. The test for home has no \<^verbatim>\<open>return\<close> and no \<^verbatim>\<open>else\<close>: the
  statements after it run in either case.
\<close>

definition Player_update :: "game \<Rightarrow> game" where
  "Player_update g =
     (let g1 = (if Home_contains (home g) (Player_x (player g)) (Player_y (player g))
                then game_over_win g else g);
          t = turtle (player g1);
          wp = waypoint g1
      in if wp_active (waypoint g1) then
           (let t1 = setheading t (towards t (wp_x wp) (wp_y wp));
                t2 = forward t1 (player_speed (player g1));
                g2 = g1\<lparr>player := (player g1)\<lparr>turtle := t2\<rparr>\<rparr>
            in if distance t2 (wp_x wp) (wp_y wp) < player_speed (player g2)
               then g2\<lparr>waypoint := deactivate wp\<rparr>
               else g2)
         else g1)"

subsection \<open>Construction\<close>

text \<open>
  A constructor returns the object or the exception it raised. The initial position is
  the one \<^verbatim>\<open>GameElement.__init__\<close> of \<^verbatim>\<open>gamelib\<close> sets; that class is not part of the
  sources, so the position is a parameter.
\<close>

datatype py_error = ValueError | ZeroDivisionError

definition Enemy_init :: "real \<Rightarrow> real \<Rightarrow> real \<Rightarrow> string \<Rightarrow> py_error + Enemy" where
  "Enemy_init x0 y0 sz color = Inr \<lparr>en_x = x0, en_y = y0, en_size = sz, en_color = color\<rparr>"

definition move_to :: "'a Enemy_scheme \<Rightarrow> real \<Rightarrow> real \<Rightarrow> 'a Enemy_scheme" where
  "move_to e x y = e\<lparr>en_x := x, en_y := y\<rparr>"

subsection \<open>The random walker\<close>

text \<open>
  \<^verbatim>\<open>__state\<close> holds one of the bound methods \<^verbatim>\<open>moving_right\<close>, \<^verbatim>\<open>moving_left\<close> and
  \<^verbatim>\<open>__state_height\<close> one of \<^verbatim>\<open>moving_up\<close>, \<^verbatim>\<open>moving_down\<close>: no other value is ever
  assigned to them. The speed is the value \<^verbatim>\<open>random.randint(6,10)\<close> returned.
\<close>

datatype walk_state = Walk_moving_right | Walk_moving_left

datatype walk_state_height = Walk_moving_up | Walk_moving_down

record Enemy_walk_random = Enemy +
  rw_state :: walk_state
  rw_state_height :: walk_state_height
  rw_speed :: real

definition Enemy_walk_random_init ::
  "real \<Rightarrow> real \<Rightarrow> real \<Rightarrow> string \<Rightarrow> real \<Rightarrow> py_error + Enemy_walk_random" where
  "Enemy_walk_random_init x0 y0 sz color randint_6_10 =
     (case Enemy_init x0 y0 sz color of
        Inl err \<Rightarrow> Inl err
      | Inr b \<Rightarrow> Inr \<lparr>en_x = en_x b, en_y = en_y b, en_size = en_size b, en_color = en_color b,
                    rw_state = Walk_moving_right, rw_state_height = Walk_moving_down,
                    rw_speed = randint_6_10\<rparr>)"

definition walk_moving_right :: "game \<Rightarrow> Enemy_walk_random \<Rightarrow> Enemy_walk_random" where
  "walk_moving_right g e =
     (let e1 = move_to e (en_x e + rw_speed e) (en_y e)
      in if en_x e1 > real_of_int (winfo_width g) then e1\<lparr>rw_state := Walk_moving_left\<rparr> else e1)"

definition walk_moving_left :: "game \<Rightarrow> Enemy_walk_random \<Rightarrow> Enemy_walk_random" where
  "walk_moving_left g e =
     (let e1 = move_to e (en_x e - rw_speed e) (en_y e)
      in if en_x e1 < 0 then e1\<lparr>rw_state := Walk_moving_right\<rparr> else e1)"

definition walk_moving_up :: "game \<Rightarrow> Enemy_walk_random \<Rightarrow> Enemy_walk_random" where
  "walk_moving_up g e =
     (let e1 = move_to e (en_x e) (en_y e + rw_speed e)
      in if en_y e1 > real_of_int (winfo_height g)
         then e1\<lparr>rw_state_height := Walk_moving_down\<rparr> else e1)"

definition walk_moving_down :: "game \<Rightarrow> Enemy_walk_random \<Rightarrow> Enemy_walk_random" where
  "walk_moving_down g e =
     (let e1 = move_to e (en_x e) (en_y e - rw_speed e)
      in if en_y e1 < 0 then e1\<lparr>rw_state_height := Walk_moving_up\<rparr> else e1)"

definition Enemy_walk_random_update ::
  "game \<Rightarrow> Enemy_walk_random \<Rightarrow> Enemy_walk_random \<times> game" where
  "Enemy_walk_random_update g e =
     (let e1 = e\<lparr>en_x := en_x e + 1\<rparr>;
          e2 = e1\<lparr>en_y := en_y e1 + 1\<rparr>;
          e3 = (case rw_state e2 of
                  Walk_moving_right \<Rightarrow> walk_moving_right g e2
                | Walk_moving_left \<Rightarrow> walk_moving_left g e2);
          e4 = (case rw_state_height e3 of
                  Walk_moving_up \<Rightarrow> walk_moving_up g e3
                | Walk_moving_down \<Rightarrow> walk_moving_down g e3)
      in (e4, if hits_player g e4 then game_over_lose g else g))"

subsection \<open>The chaser\<close>

definition Chasing_Enemy_init :: "real \<Rightarrow> real \<Rightarrow> real \<Rightarrow> string \<Rightarrow> py_error + Enemy" where
  "Chasing_Enemy_init x0 y0 sz color = Enemy_init x0 y0 sz color"

text \<open>
  \<^verbatim>\<open>a / b\<close> on Python floats raises \<^verbatim>\<open>ZeroDivisionError\<close> when \<open>b\<close> is zero. The
  divisions by the literal 2 elsewhere cannot raise and are written with the plain
  quotient.
\<close>

definition py_truediv :: "real \<Rightarrow> real \<Rightarrow> py_error + real" where
  "py_truediv a b = (if b = 0 then Inl ZeroDivisionError else Inr (a / b))"

definition chasing_to_player :: "game \<Rightarrow> Enemy \<Rightarrow> py_error + Enemy" where
  "chasing_to_player g e =
     (let direction_x = Player_x (player g) - en_x e;
          direction_y = Player_y (player g) - en_y e;
          mag = sqrt (direction_x\<^sup>2 + direction_y\<^sup>2);
          normalised =
            (if mag \<noteq> 0 then
               (case py_truediv direction_x mag of
                  Inl err \<Rightarrow> Inl err
                | Inr dx \<Rightarrow>
                    (case py_truediv direction_y mag of
                       Inl err \<Rightarrow> Inl err
                     | Inr dy \<Rightarrow> Inr (dx, dy)))
             else Inr (direction_x, direction_y))
      in case normalised of
           Inl err \<Rightarrow> Inl err
         | Inr (direction_x', direction_y') \<Rightarrow>
             (let e1 = e\<lparr>en_x := en_x e + direction_x' * 1.2\<rparr>
              in Inr (e1\<lparr>en_y := en_y e1 + direction_y' * 1.2\<rparr>)))"

definition Chasing_Enemy_update :: "game \<Rightarrow> Enemy \<Rightarrow> py_error + Enemy \<times> game" where
  "Chasing_Enemy_update g e =
     (case chasing_to_player g e of
        Inl err \<Rightarrow> Inl err
      | Inr e1 \<Rightarrow> Inr (e1, if hits_player g e1 then game_over_lose g else g))"

subsection \<open>The fencer\<close>

datatype fence_state =
  Fence_moving_right | Fence_moving_down | Fence_moving_left | Fence_moving_up

record FencingEnemy = Enemy +
  fe_state :: fence_state
  fe_speed :: real

definition FencingEnemy_init ::
  "real \<Rightarrow> real \<Rightarrow> real \<Rightarrow> string \<Rightarrow> real \<Rightarrow> py_error + FencingEnemy" where
  "FencingEnemy_init x0 y0 sz color speed =
     (case Enemy_init x0 y0 sz color of
        Inl err \<Rightarrow> Inl err
      | Inr b \<Rightarrow> Inr \<lparr>en_x = en_x b, en_y = en_y b, en_size = en_size b, en_color = en_color b,
                    fe_state = Fence_moving_right, fe_speed = speed\<rparr>)"

definition fence_moving_right :: "game \<Rightarrow> FencingEnemy \<Rightarrow> FencingEnemy" where
  "fence_moving_right g e =
     (if en_x e < home_x (home g) + (home_size (home g) / 2)
      then move_to e (en_x e + fe_speed e) (en_y e)
      else e\<lparr>fe_state := Fence_moving_down\<rparr>)"

definition fence_moving_down :: "game \<Rightarrow> FencingEnemy \<Rightarrow> FencingEnemy" where
  "fence_moving_down g e =
     (if en_y e < home_y (home g) + (home_size (home g) / 2)
      then move_to e (en_x e) (en_y e + fe_speed e)
      else e\<lparr>fe_state := Fence_moving_left\<rparr>)"

definition fence_moving_left :: "game \<Rightarrow> FencingEnemy \<Rightarrow> FencingEnemy" where
  "fence_moving_left g e =
     (if en_x e > home_x (home g) - (home_size (home g) / 2)
      then move_to e (en_x e - fe_speed e) (en_y e)
      else e\<lparr>fe_state := Fence_moving_up\<rparr>)"

definition fence_moving_up :: "game \<Rightarrow> FencingEnemy \<Rightarrow> FencingEnemy" where
  "fence_moving_up g e =
     (if en_y e > home_y (home g) - (home_size (home g) / 2)
      then move_to e (en_x e) (en_y e - fe_speed e)
      else e\<lparr>fe_state := Fence_moving_right\<rparr>)"

definition FencingEnemy_update :: "game \<Rightarrow> FencingEnemy \<Rightarrow> FencingEnemy \<times> game" where
  "FencingEnemy_update g e =
     (let e1 = (case fe_state e of
                  Fence_moving_right \<Rightarrow> fence_moving_right g e
                | Fence_moving_down \<Rightarrow> fence_moving_down g e
                | Fence_moving_left \<Rightarrow> fence_moving_left g e
                | Fence_moving_up \<Rightarrow> fence_moving_up g e)
      in (e1, if hits_player g e1 then game_over_lose g else g))"

text \<open>\<^verbatim>\<open>EnemyGenerator.position_fencing\<close>: the corner of home where a fencer is put.\<close>

definition position_fencing :: "game \<Rightarrow> 'a Enemy_scheme \<Rightarrow> 'a Enemy_scheme" where
  "position_fencing g e =
     e\<lparr>en_x := home_x (home g) - home_size (home g) / 2,
       en_y := home_y (home g) - home_size (home g) / 2\<rparr>"

text \<open>The fencer after \<open>n\<close> ticks of a game whose home stays where it is.\<close>

definition fencer_ticks :: "game \<Rightarrow> nat \<Rightarrow> FencingEnemy \<Rightarrow> FencingEnemy" where
  "fencer_ticks g n e = ((\<lambda>e'. fst (FencingEnemy_update g e')) ^^ n) e"

text \<open>
  The order of the patrol as the specification states it, right, down, left, up and right
  again, to compare the transitions of the code with.
\<close>

fun cycle_next :: "fence_state \<Rightarrow> fence_state" where
  "cycle_next Fence_moving_right = Fence_moving_down"
| "cycle_next Fence_moving_down = Fence_moving_left"
| "cycle_next Fence_moving_left = Fence_moving_up"
| "cycle_next Fence_moving_up = Fence_moving_right"

subsection \<open>The sentinel\<close>

text \<open>\<open>sc_fill\<close> is the fill colour of the sentinel's oval on the canvas.\<close>

record Stealth_Circle = Enemy +
  sc_speed :: real
  sc_detection :: real
  sc_detected :: bool
  sc_fill :: string

definition Stealth_Circle_init ::
  "real \<Rightarrow> real \<Rightarrow> real \<Rightarrow> string \<Rightarrow> real \<Rightarrow> py_error + Stealth_Circle" where
  "Stealth_Circle_init x0 y0 sz color randint_6_10 =
     (case Enemy_init x0 y0 sz color of
        Inl err \<Rightarrow> Inl err
      | Inr b \<Rightarrow> Inr \<lparr>en_x = en_x b, en_y = en_y b, en_size = en_size b, en_color = en_color b,
                    sc_speed = randint_6_10, sc_detection = 100, sc_detected = False,
                    sc_fill = color\<rparr>)"

definition is_near_by :: "game \<Rightarrow> Stealth_Circle \<Rightarrow> bool" where
  "is_near_by g e =
     (let distance = sqrt ((Player_x (player g) - en_x e)\<^sup>2 + (Player_y (player g) - en_y e)\<^sup>2)
      in distance < sc_detection e)"

definition Stealth_Circle_update :: "game \<Rightarrow> Stealth_Circle \<Rightarrow> Stealth_Circle \<times> game" where
  "Stealth_Circle_update g e =
     (let e1 = (if is_near_by g e \<and> \<not> sc_detected e
                then e\<lparr>sc_detected := True, sc_fill := ''red''\<rparr> else e);
          e2 = (if sc_detected e1 \<and> \<not> is_near_by g e1
                then e1\<lparr>sc_detected := False, sc_fill := ''white''\<rparr> else e1)
      in (e2, if hits_player g e2 then game_over_lose g else g))"

subsection \<open>Example games\<close>

text \<open>
  Three states of a game on an 800 by 500 canvas, with home where \<^verbatim>\<open>init_game\<close> puts it:
  the player on the centre of home with an active waypoint to its right; the player at its
  starting point with an active waypoint at distance 5; and the same with the waypoint
  inactive.
\<close>

definition game_at_home :: game where
  "game_at_home =
     \<lparr>waypoint = \<lparr>wp_x = 710, wp_y = 250, wp_active = True\<rparr>,
      home = \<lparr>home_x = 700, home_y = 250, home_size = 20\<rparr>,
      player = \<lparr>turtle = \<lparr>xcor = 700, ycor = 250, heading = 0\<rparr>, player_speed = 5\<rparr>,
      winfo_width = 800, winfo_height = 500, is_running = True, banners = []\<rparr>"

definition game_seeking :: game where
  "game_seeking =
     \<lparr>waypoint = \<lparr>wp_x = 53, wp_y = 254, wp_active = True\<rparr>,
      home = \<lparr>home_x = 700, home_y = 250, home_size = 20\<rparr>,
      player = \<lparr>turtle = \<lparr>xcor = 50, ycor = 250, heading = 0\<rparr>, player_speed = 5\<rparr>,
      winfo_width = 800, winfo_height = 500, is_running = True, banners = []\<rparr>"

definition game_idle :: game where
  "game_idle =
     \<lparr>waypoint = \<lparr>wp_x = 53, wp_y = 254, wp_active = False\<rparr>,
      home = \<lparr>home_x = 700, home_y = 250, home_size = 20\<rparr>,
      player = \<lparr>turtle = \<lparr>xcor = 50, ycor = 250, heading = 0\<rparr>, player_speed = 5\<rparr>,
      winfo_width = 800, winfo_height = 500, is_running = True, banners = []\<rparr>"

text \<open>
  Enemies for the examples: a walker about to leave the canvas at its right and top
  edges, a dormant sentinel at distance 50 from the player's starting point, an alerted
  one at distance 300, a chaser at distance 50 and a chaser on the player.
\<close>

definition walker_in_corner :: Enemy_walk_random where
  "walker_in_corner =
     \<lparr>en_x = 795, en_y = 3, en_size = 20, en_color = ''Blue'',
      rw_state = Walk_moving_right, rw_state_height = Walk_moving_down, rw_speed = 6\<rparr>"

definition sentinel_near :: Stealth_Circle where
  "sentinel_near =
     \<lparr>en_x = 80, en_y = 210, en_size = 50, en_color = ''white'',
      sc_speed = 6, sc_detection = 100, sc_detected = False, sc_fill = ''white''\<rparr>"

definition sentinel_far :: Stealth_Circle where
  "sentinel_far =
     \<lparr>en_x = 350, en_y = 250, en_size = 50, en_color = ''white'',
      sc_speed = 6, sc_detection = 100, sc_detected = True, sc_fill = ''red''\<rparr>"

definition chaser_example :: Enemy where
  "chaser_example = \<lparr>en_x = 20, en_y = 210, en_size = 20, en_color = ''red''\<rparr>"

definition chaser_on_player :: Enemy where
  "chaser_on_player = \<lparr>en_x = 50, en_y = 250, en_size = 20, en_color = ''red''\<rparr>"

text \<open>
  Two fencers of speed 3: one on the corner of home where the generator puts it, one
  that has passed the right edge of home's square.
\<close>

definition fencer_at_corner :: FencingEnemy where
  "fencer_at_corner =
     \<lparr>en_x = 690, en_y = 240, en_size = 10, en_color = ''yellow'',
      fe_state = Fence_moving_right, fe_speed = 3\<rparr>"

definition fencer_past_edge :: FencingEnemy where
  "fencer_past_edge =
     \<lparr>en_x = 711, en_y = 240, en_size = 10, en_color = ''yellow'',
      fe_state = Fence_moving_right, fe_speed = 3\<rparr>"

section \<open>Containment and hit test\<close>

lemma player_at_pos:
  "Player_x (player (player_at g px py)) = px" "Player_y (player (player_at g px py)) = py"
  by (simp_all add: player_at_def Player_x_def Player_y_def)

text \<open>
  Claim C3. For every enemy and every player position, \<open>hits_player\<close> is true exactly
  when the player's x is strictly between the enemy's x minus and plus half its size and
  the player's y is strictly between the enemy's y minus and plus half its size; that
  is, when both coordinates are at a distance strictly less than half the size from the
  enemy's. A player with a coordinate exactly on the boundary of the hit-box is not hit.
\<close>

theorem hits_player_strict_interior:
  fixes e :: "'a Enemy_scheme"
  shows "(hits_player (player_at g px py) e \<longleftrightarrow>
            (en_x e - en_size e / 2 < px \<and> px < en_x e + en_size e / 2) \<and>
            (en_y e - en_size e / 2 < py \<and> py < en_y e + en_size e / 2))
       \<and> (hits_player (player_at g px py) e \<longleftrightarrow>
            \<bar>px - en_x e\<bar> < en_size e / 2 \<and> \<bar>py - en_y e\<bar> < en_size e / 2)
       \<and> \<not> hits_player (player_at g (en_x e - en_size e / 2) py) e
       \<and> \<not> hits_player (player_at g (en_x e + en_size e / 2) py) e
       \<and> \<not> hits_player (player_at g px (en_y e - en_size e / 2)) e
       \<and> \<not> hits_player (player_at g px (en_y e + en_size e / 2)) e"
  unfolding hits_player_def player_at_pos abs_less_iff by auto

text \<open>
  Claim C4. For every point, \<open>Home_contains\<close> is true exactly when x lies within half
  the size of the centre's x and y lies within half the size of the centre's y, the
  boundary included; a point with either coordinate farther than half the size from the
  centre is excluded.
\<close>

theorem Home_contains_iff:
  "(Home_contains h x y \<longleftrightarrow>
      \<bar>x - home_x h\<bar> \<le> home_size h / 2 \<and> \<bar>y - home_y h\<bar> \<le> home_size h / 2)
   \<and> (Home_contains h x y \<longleftrightarrow>
      (home_x h - home_size h / 2 \<le> x \<and> x \<le> home_x h + home_size h / 2) \<and>
      (home_y h - home_size h / 2 \<le> y \<and> y \<le> home_y h + home_size h / 2))
   \<and> (home_size h / 2 < \<bar>x - home_x h\<bar> \<or> home_size h / 2 < \<bar>y - home_y h\<bar>
        \<longrightarrow> \<not> Home_contains h x y)"
  unfolding Home_contains_def Let_def by (auto simp: abs_if split: if_splits)

theorem Home_contains_iff_witness:
  "Home_contains \<lparr>home_x = 700, home_y = 250, home_size = 20\<rparr> 710 240
   \<and> \<not> Home_contains \<lparr>home_x = 700, home_y = 250, home_size = 20\<rparr> 711 250
   \<and> \<not> Home_contains \<lparr>home_x = 700, home_y = 250, home_size = 20\<rparr> 700 239"
  using Home_contains_iff [of "\<lparr>home_x = 700, home_y = 250, home_size = 20\<rparr>" 710 240]
        Home_contains_iff [of "\<lparr>home_x = 700, home_y = 250, home_size = 20\<rparr>" 711 250]
        Home_contains_iff [of "\<lparr>home_x = 700, home_y = 250, home_size = 20\<rparr>" 700 239]
  by simp

section \<open>The player\<close>

subsection \<open>The angle of the heading\<close>

lemma hyp_pos: "x \<noteq> 0 \<Longrightarrow> sqrt (1 + (y / x)\<^sup>2) = sqrt (x\<^sup>2 + y\<^sup>2) / \<bar>x\<bar>" for x y :: real
proof -
  assume x: "x \<noteq> 0"
  have "1 + (y / x)\<^sup>2 = (x\<^sup>2 + y\<^sup>2) / x\<^sup>2"
    using x by (simp add: field_simps power_divide)
  then show ?thesis by (simp add: real_sqrt_divide)
qed

lemma cos_atan2: "x \<noteq> 0 \<or> y \<noteq> 0 \<Longrightarrow> cos (atan2 y x) = x / sqrt (x\<^sup>2 + y\<^sup>2)"
  by (auto simp: atan2_def cos_arctan hyp_pos not_less abs_if)

lemma sin_atan2: "x \<noteq> 0 \<or> y \<noteq> 0 \<Longrightarrow> sin (atan2 y x) = y / sqrt (x\<^sup>2 + y\<^sup>2)"
  by (auto simp: atan2_def sin_arctan hyp_pos not_less abs_if)

lemma step_length: "sqrt ((d * cos a)\<^sup>2 + (d * sin a)\<^sup>2) = \<bar>d\<bar>" for d a :: real
proof -
  have "(d * cos a)\<^sup>2 + (d * sin a)\<^sup>2 = d\<^sup>2 * ((cos a)\<^sup>2 + (sin a)\<^sup>2)"
    by (simp add: power_mult_distrib distrib_left[symmetric])
  then show ?thesis by simp
qed

lemma sqrt_25: "sqrt 25 = 5"
  by (rule real_sqrt_unique) simp_all

subsection \<open>What one update does\<close>

lemma Player_update_active:
  assumes "wp_active (waypoint g)"
  shows "turtle (player (Player_update g)) =
           forward (setheading (turtle (player g))
                      (towards (turtle (player g)) (wp_x (waypoint g)) (wp_y (waypoint g))))
                   (player_speed (player g))"
    and "player_speed (player (Player_update g)) = player_speed (player g)"
    and "wp_x (waypoint (Player_update g)) = wp_x (waypoint g)"
    and "wp_y (waypoint (Player_update g)) = wp_y (waypoint g)"
    and "wp_active (waypoint (Player_update g)) \<longleftrightarrow>
           \<not> distance (turtle (player (Player_update g))) (wp_x (waypoint g)) (wp_y (waypoint g))
               < player_speed (player g)"
  using assms
  by (simp_all add: Player_update_def Let_def game_over_win_def stop_def deactivate_def)

lemma Player_update_inactive:
  assumes "\<not> wp_active (waypoint g)"
  shows "player (Player_update g) = player g" "waypoint (Player_update g) = waypoint g"
  using assms
  by (simp_all add: Player_update_def Let_def game_over_win_def stop_def)

lemma Player_update_home:
  assumes "Home_contains (home g) (Player_x (player g)) (Player_y (player g))"
  shows "\<not> is_running (Player_update g)" "banners (Player_update g) = banners g @ [''You Win'']"
  using assms
  by (simp_all add: Player_update_def Let_def game_over_win_def stop_def)

lemma Player_update_not_home:
  assumes "\<not> Home_contains (home g) (Player_x (player g)) (Player_y (player g))"
  shows "is_running (Player_update g) = is_running g" "banners (Player_update g) = banners g"
  using assms
  by (simp_all add: Player_update_def Let_def game_over_win_def stop_def)

text \<open>
  Claim C1, as stated, fails. It says that a player inside home is not moved by the
  waypoint step of the same tick. Here the player stands on the centre of home, the
  waypoint is active, and the update moves the player from x = 700 to x = 705.
\<close>

theorem Player_update_home_still_moves:
  "Home_contains (home game_at_home) (Player_x (player game_at_home)) (Player_y (player game_at_home))
   \<and> wp_active (waypoint game_at_home)
   \<and> Player_x (player game_at_home) = 700
   \<and> Player_x (player (Player_update game_at_home)) = 705
   \<and> Player_x (player (Player_update game_at_home)) \<noteq> Player_x (player game_at_home)"
  by (simp add: game_at_home_def Player_update_def Let_def Home_contains_def Player_x_def
      Player_y_def game_over_win_def stop_def towards_def atan2_def setheading_def forward_def
      distance_def deactivate_def)

text \<open>
  Claim C1, amended. If the player's position lies within home's rectangle, the update
  signals the win (the game is stopped and the text is drawn), and the waypoint step of
  that tick is still carried out: with an active waypoint the position advances by the
  speed along the heading toward the waypoint, with an inactive one it is unchanged.
\<close>

theorem Player_update_at_home:
  fixes g :: game
  defines "g' \<equiv> Player_update g"
    and "speed \<equiv> player_speed (player g)"
    and "h \<equiv> towards (turtle (player g)) (wp_x (waypoint g)) (wp_y (waypoint g))"
  assumes "Home_contains (home g) (Player_x (player g)) (Player_y (player g))"
  shows "\<not> is_running g' \<and> banners g' = banners g @ [''You Win'']
       \<and> (wp_active (waypoint g) \<longrightarrow>
            Player_x (player g') = Player_x (player g) + speed * cos h
          \<and> Player_y (player g') = Player_y (player g) + speed * sin h)
       \<and> (\<not> wp_active (waypoint g) \<longrightarrow>
            Player_x (player g') = Player_x (player g)
          \<and> Player_y (player g') = Player_y (player g))"
proof (intro conjI impI)
  show "\<not> is_running g'" "banners g' = banners g @ [''You Win'']"
    using assms(4) by (simp_all add: g'_def Player_update_home)
next
  assume a: "wp_active (waypoint g)"
  show "Player_x (player g') = Player_x (player g) + speed * cos h"
    by (simp add: g'_def speed_def h_def Player_update_active [OF a] Player_x_def forward_def
        setheading_def)
  show "Player_y (player g') = Player_y (player g) + speed * sin h"
    by (simp add: g'_def speed_def h_def Player_update_active [OF a] Player_y_def forward_def
        setheading_def)
next
  assume n: "\<not> wp_active (waypoint g)"
  show "Player_x (player g') = Player_x (player g)" "Player_y (player g') = Player_y (player g)"
    by (simp_all add: g'_def Player_update_inactive [OF n])
qed

theorem Player_update_at_home_witness:
  "Home_contains (home game_at_home) (Player_x (player game_at_home)) (Player_y (player game_at_home))
   \<and> \<not> is_running (Player_update game_at_home)
   \<and> banners (Player_update game_at_home) = [''You Win'']
   \<and> Player_x (player (Player_update game_at_home)) = 705
   \<and> Player_y (player (Player_update game_at_home)) = 250"
proof -
  have c: "Home_contains (home game_at_home) (Player_x (player game_at_home))
             (Player_y (player game_at_home))"
    by (simp add: game_at_home_def Home_contains_def Player_x_def Player_y_def)
  have t: "towards (turtle (player game_at_home)) (wp_x (waypoint game_at_home))
             (wp_y (waypoint game_at_home)) = 0"
    by (simp add: game_at_home_def towards_def atan2_def)
  show ?thesis
    using c Player_update_at_home [OF c]
    by (simp add: t) (simp add: game_at_home_def Player_x_def Player_y_def)
qed

text \<open>
  Claim C2. Whenever the waypoint is active, the player's position advances by exactly
  the speed along the heading from the player toward the waypoint (the displacement is
  the speed times the unit vector of that heading, which points at the waypoint when the
  two do not coincide, and its length is the absolute value of the speed), and the
  waypoint is deactivated on that tick exactly when, after the move, the Euclidean
  distance from the player to the waypoint is less than the speed. Whenever the waypoint
  is inactive, the position is unchanged.
\<close>

theorem Player_update_waypoint_step:
  fixes g :: game
  defines "g' \<equiv> Player_update g"
    and "wx \<equiv> wp_x (waypoint g)" and "wy \<equiv> wp_y (waypoint g)"
    and "speed \<equiv> player_speed (player g)"
    and "h \<equiv> towards (turtle (player g)) (wp_x (waypoint g)) (wp_y (waypoint g))"
  shows "(wp_active (waypoint g) \<longrightarrow>
            Player_x (player g') = Player_x (player g) + speed * cos h
          \<and> Player_y (player g') = Player_y (player g) + speed * sin h
          \<and> sqrt ((Player_x (player g') - Player_x (player g))\<^sup>2
                  + (Player_y (player g') - Player_y (player g))\<^sup>2) = \<bar>speed\<bar>
          \<and> (wx \<noteq> Player_x (player g) \<or> wy \<noteq> Player_y (player g) \<longrightarrow>
               cos h = (wx - Player_x (player g)) / distance (turtle (player g)) wx wy
             \<and> sin h = (wy - Player_y (player g)) / distance (turtle (player g)) wx wy)
          \<and> (\<not> wp_active (waypoint g') \<longleftrightarrow> distance (turtle (player g')) wx wy < speed)
          \<and> wp_x (waypoint g') = wx \<and> wp_y (waypoint g') = wy)
       \<and> (\<not> wp_active (waypoint g) \<longrightarrow>
            Player_x (player g') = Player_x (player g)
          \<and> Player_y (player g') = Player_y (player g)
          \<and> waypoint g' = waypoint g)"
proof (intro conjI impI)
  assume a: "wp_active (waypoint g)"
  note u = Player_update_active [OF a]
  show x: "Player_x (player g') = Player_x (player g) + speed * cos h"
    by (simp add: g'_def speed_def h_def u Player_x_def forward_def setheading_def)
  show y: "Player_y (player g') = Player_y (player g) + speed * sin h"
    by (simp add: g'_def speed_def h_def u Player_y_def forward_def setheading_def)
  show "sqrt ((Player_x (player g') - Player_x (player g))\<^sup>2
          + (Player_y (player g') - Player_y (player g))\<^sup>2) = \<bar>speed\<bar>"
    by (simp add: x y step_length)
  show "\<not> wp_active (waypoint g') \<longleftrightarrow> distance (turtle (player g')) wx wy < speed"
    by (simp add: g'_def speed_def wx_def wy_def u(5))
  show "wp_x (waypoint g') = wx" "wp_y (waypoint g') = wy"
    by (simp_all add: g'_def wx_def wy_def u)
next
  assume "wp_active (waypoint g)"
    and ne: "wx \<noteq> Player_x (player g) \<or> wy \<noteq> Player_y (player g)"
  then have nz: "wx - xcor (turtle (player g)) \<noteq> 0 \<or> wy - ycor (turtle (player g)) \<noteq> 0"
    by (auto simp: Player_x_def Player_y_def)
  show "cos h = (wx - Player_x (player g)) / distance (turtle (player g)) wx wy"
    using cos_atan2 [OF nz]
    by (simp add: h_def towards_def distance_def Player_x_def wx_def wy_def)
  show "sin h = (wy - Player_y (player g)) / distance (turtle (player g)) wx wy"
    using sin_atan2 [OF nz]
    by (simp add: h_def towards_def distance_def Player_y_def wx_def wy_def)
next
  assume n: "\<not> wp_active (waypoint g)"
  show "Player_x (player g') = Player_x (player g)" "Player_y (player g') = Player_y (player g)"
    "waypoint g' = waypoint g"
    by (simp_all add: g'_def Player_update_inactive [OF n])
qed

theorem Player_update_waypoint_step_witness:
  "wp_active (waypoint game_seeking)
   \<and> Player_x (player game_seeking) = 50 \<and> Player_y (player game_seeking) = 250
   \<and> Player_x (player (Player_update game_seeking)) = 53
   \<and> Player_y (player (Player_update game_seeking)) = 254
   \<and> \<not> wp_active (waypoint (Player_update game_seeking))
   \<and> \<not> wp_active (waypoint game_idle)
   \<and> Player_x (player (Player_update game_idle)) = 50
   \<and> Player_y (player (Player_update game_idle)) = 250"
proof -
  have d: "distance (turtle (player game_seeking)) 53 254 = 5"
    by (simp add: distance_def game_seeking_def sqrt_25)
  have s: "Player_x (player game_seeking) = 50" "Player_y (player game_seeking) = 250"
    "wp_x (waypoint game_seeking) = 53" "wp_y (waypoint game_seeking) = 254"
    "wp_active (waypoint game_seeking)" "player_speed (player game_seeking) = 5"
    by (simp_all add: game_seeking_def Player_x_def Player_y_def)
  have i: "Player_x (player game_idle) = 50" "Player_y (player game_idle) = 250"
    "\<not> wp_active (waypoint game_idle)"
    by (simp_all add: game_idle_def Player_x_def Player_y_def)
  have x: "Player_x (player (Player_update game_seeking)) = 53"
    and y: "Player_y (player (Player_update game_seeking)) = 254"
    using Player_update_waypoint_step [of game_seeking] by (simp_all add: s d)
  then have "distance (turtle (player (Player_update game_seeking))) 53 254 = 0"
    by (simp add: distance_def Player_x_def Player_y_def)
  then have "\<not> wp_active (waypoint (Player_update game_seeking))"
    using Player_update_waypoint_step [of game_seeking] by (simp add: s)
  moreover have "Player_x (player (Player_update game_idle)) = 50"
    "Player_y (player (Player_update game_idle)) = 250"
    using Player_update_waypoint_step [of game_idle] by (simp_all add: i)
  ultimately show ?thesis using s i x y by simp
qed

section \<open>The random walker\<close>

lemma walk_update_fields:
  "en_size (fst (Enemy_walk_random_update g e)) = en_size e"
  "en_color (fst (Enemy_walk_random_update g e)) = en_color e"
  "rw_speed (fst (Enemy_walk_random_update g e)) = rw_speed e"
  by (simp_all add: Enemy_walk_random_update_def Let_def walk_moving_right_def
      walk_moving_left_def walk_moving_up_def walk_moving_down_def move_to_def
      split: walk_state.split walk_state_height.split)

lemma walk_update_x:
  "en_x (fst (Enemy_walk_random_update g e)) =
     (case rw_state e of Walk_moving_right \<Rightarrow> en_x e + 1 + rw_speed e
                      | Walk_moving_left \<Rightarrow> en_x e + 1 - rw_speed e)"
  by (simp add: Enemy_walk_random_update_def Let_def walk_moving_right_def
      walk_moving_left_def walk_moving_up_def walk_moving_down_def move_to_def
      split: walk_state.split walk_state_height.split)

lemma walk_update_y:
  "en_y (fst (Enemy_walk_random_update g e)) =
     (case rw_state_height e of Walk_moving_up \<Rightarrow> en_y e + 1 + rw_speed e
                             | Walk_moving_down \<Rightarrow> en_y e + 1 - rw_speed e)"
  by (simp add: Enemy_walk_random_update_def Let_def walk_moving_right_def
      walk_moving_left_def walk_moving_up_def walk_moving_down_def move_to_def
      split: walk_state.split walk_state_height.split)

lemma walk_update_state:
  "rw_state (fst (Enemy_walk_random_update g e)) =
     (case rw_state e of
        Walk_moving_right \<Rightarrow>
          if en_x e + 1 + rw_speed e > real_of_int (winfo_width g)
          then Walk_moving_left else Walk_moving_right
      | Walk_moving_left \<Rightarrow>
          if en_x e + 1 - rw_speed e < 0 then Walk_moving_right else Walk_moving_left)"
  by (simp add: Enemy_walk_random_update_def Let_def walk_moving_right_def
      walk_moving_left_def walk_moving_up_def walk_moving_down_def move_to_def
      split: walk_state.split walk_state_height.split)

lemma walk_update_state_height:
  "rw_state_height (fst (Enemy_walk_random_update g e)) =
     (case rw_state_height e of
        Walk_moving_up \<Rightarrow>
          if en_y e + 1 + rw_speed e > real_of_int (winfo_height g)
          then Walk_moving_down else Walk_moving_up
      | Walk_moving_down \<Rightarrow>
          if en_y e + 1 - rw_speed e < 0 then Walk_moving_up else Walk_moving_down)"
  by (simp add: Enemy_walk_random_update_def Let_def walk_moving_right_def
      walk_moving_left_def walk_moving_up_def walk_moving_down_def move_to_def
      split: walk_state.split walk_state_height.split)

text \<open>
  Claim C5. Each tick of the random walker adds the drift of 1 to both coordinates and
  one step of the speed along the current horizontal direction and one along the current
  vertical direction. The horizontal direction flips from right to left exactly when the
  new x exceeds the width of the canvas, and from left to right exactly when the new x
  is below 0; the vertical direction flips from the y-increasing one (\<^verbatim>\<open>moving_up\<close> in the
  source) to the y-decreasing one (\<^verbatim>\<open>moving_down\<close>) exactly when the new y exceeds the
  height, and back exactly when the new y is below 0. Each direction is tested once per
  tick, so it flips at most once.
\<close>

theorem Enemy_walk_random_update_step:
  fixes g :: game and e :: Enemy_walk_random
  defines "e' \<equiv> fst (Enemy_walk_random_update g e)"
  shows "(rw_state e = Walk_moving_right \<longrightarrow>
            en_x e' = (en_x e + 1) + rw_speed e
          \<and> (rw_state e' = Walk_moving_left \<longleftrightarrow> en_x e' > real_of_int (winfo_width g))
          \<and> (rw_state e' = Walk_moving_right \<longleftrightarrow> \<not> en_x e' > real_of_int (winfo_width g)))
       \<and> (rw_state e = Walk_moving_left \<longrightarrow>
            en_x e' = (en_x e + 1) - rw_speed e
          \<and> (rw_state e' = Walk_moving_right \<longleftrightarrow> en_x e' < 0)
          \<and> (rw_state e' = Walk_moving_left \<longleftrightarrow> \<not> en_x e' < 0))
       \<and> (rw_state_height e = Walk_moving_up \<longrightarrow>
            en_y e' = (en_y e + 1) + rw_speed e
          \<and> (rw_state_height e' = Walk_moving_down \<longleftrightarrow> en_y e' > real_of_int (winfo_height g))
          \<and> (rw_state_height e' = Walk_moving_up \<longleftrightarrow> \<not> en_y e' > real_of_int (winfo_height g)))
       \<and> (rw_state_height e = Walk_moving_down \<longrightarrow>
            en_y e' = (en_y e + 1) - rw_speed e
          \<and> (rw_state_height e' = Walk_moving_up \<longleftrightarrow> en_y e' < 0)
          \<and> (rw_state_height e' = Walk_moving_down \<longleftrightarrow> \<not> en_y e' < 0))
       \<and> (0 \<le> rw_speed e \<longrightarrow>
            \<bar>en_x e' - (en_x e + 1)\<bar> = rw_speed e \<and> \<bar>en_y e' - (en_y e + 1)\<bar> = rw_speed e)
       \<and> rw_speed e' = rw_speed e"
  unfolding e'_def walk_update_x walk_update_y walk_update_state walk_update_state_height
    walk_update_fields
  by (auto split: walk_state.split walk_state_height.split)

theorem Enemy_walk_random_update_step_witness:
  "rw_state walker_in_corner = Walk_moving_right
   \<and> rw_state_height walker_in_corner = Walk_moving_down
   \<and> en_x (fst (Enemy_walk_random_update game_idle walker_in_corner)) = 802
   \<and> en_y (fst (Enemy_walk_random_update game_idle walker_in_corner)) = - 2
   \<and> rw_state (fst (Enemy_walk_random_update game_idle walker_in_corner)) = Walk_moving_left
   \<and> rw_state_height (fst (Enemy_walk_random_update game_idle walker_in_corner)) = Walk_moving_up"
proof -
  have w: "rw_state walker_in_corner = Walk_moving_right"
    "rw_state_height walker_in_corner = Walk_moving_down"
    "en_x walker_in_corner = 795" "en_y walker_in_corner = 3" "rw_speed walker_in_corner = 6"
    by (simp_all add: walker_in_corner_def)
  have g: "winfo_width game_idle = 800" "winfo_height game_idle = 500"
    by (simp_all add: game_idle_def)
  show ?thesis
    using Enemy_walk_random_update_step [of walker_in_corner game_idle]
    by (simp add: w g)
qed

section \<open>The sentinel\<close>

lemma sqrt_2500: "sqrt 2500 = 50"
  by (rule real_sqrt_unique) simp_all

lemma sqrt_90000: "sqrt 90000 = 300"
  by (rule real_sqrt_unique) simp_all

lemma Stealth_update_detected:
  "sc_detected (fst (Stealth_Circle_update g e)) = is_near_by g e"
  by (cases "sc_detected e") (auto simp: Stealth_Circle_update_def Let_def is_near_by_def)

lemma Stealth_update_frame:
  "en_x (fst (Stealth_Circle_update g e)) = en_x e"
  "en_y (fst (Stealth_Circle_update g e)) = en_y e"
  "en_size (fst (Stealth_Circle_update g e)) = en_size e"
  "sc_detection (fst (Stealth_Circle_update g e)) = sc_detection e"
  by (simp_all add: Stealth_Circle_update_def Let_def)

lemma Stealth_update_game:
  "snd (Stealth_Circle_update g e) = (if hits_player g e then game_over_lose g else g)"
  by (simp add: Stealth_Circle_update_def Let_def hits_player_def)

text \<open>
  Claim C7. On every tick a dormant sentinel becomes alerted exactly when the Euclidean
  distance to the player is strictly less than the detection radius, an alerted one
  becomes dormant exactly when that distance is at least the radius, and the position of
  the sentinel is unchanged. The hit test is made on every tick, whatever the alert
  state. The radius is the 100 the constructor sets; no method changes it.
\<close>

theorem Stealth_Circle_update_alert:
  fixes g :: game and e :: Stealth_Circle
  defines "e' \<equiv> fst (Stealth_Circle_update g e)"
    and "d \<equiv> sqrt ((Player_x (player g) - en_x e)\<^sup>2 + (Player_y (player g) - en_y e)\<^sup>2)"
  shows "(\<not> sc_detected e \<longrightarrow> (sc_detected e' \<longleftrightarrow> d < sc_detection e))
       \<and> (sc_detected e \<longrightarrow> (\<not> sc_detected e' \<longleftrightarrow> sc_detection e \<le> d))
       \<and> en_x e' = en_x e \<and> en_y e' = en_y e
       \<and> sc_detection e' = sc_detection e
       \<and> snd (Stealth_Circle_update g e) = (if hits_player g e then game_over_lose g else g)
       \<and> (case Stealth_Circle_init x0 y0 sz color r of
            Inl err \<Rightarrow> False
          | Inr e0 \<Rightarrow> sc_detection e0 = 100 \<and> \<not> sc_detected e0)"
  unfolding e'_def d_def Stealth_update_detected Stealth_update_frame Stealth_update_game
  by (auto simp: is_near_by_def Let_def Stealth_Circle_init_def Enemy_init_def)

theorem Stealth_Circle_update_alert_witness:
  "\<not> sc_detected sentinel_near
   \<and> sc_detected (fst (Stealth_Circle_update game_idle sentinel_near))
   \<and> sc_detected sentinel_far
   \<and> \<not> sc_detected (fst (Stealth_Circle_update game_idle sentinel_far))"
proof -
  have p: "Player_x (player game_idle) = 50" "Player_y (player game_idle) = 250"
    by (simp_all add: game_idle_def Player_x_def Player_y_def)
  have n: "\<not> sc_detected sentinel_near" "en_x sentinel_near = 80" "en_y sentinel_near = 210"
    "sc_detection sentinel_near = 100"
    by (simp_all add: sentinel_near_def)
  have f: "sc_detected sentinel_far" "en_x sentinel_far = 350" "en_y sentinel_far = 250"
    "sc_detection sentinel_far = 100"
    by (simp_all add: sentinel_far_def)
  have "sc_detected (fst (Stealth_Circle_update game_idle sentinel_near))"
    using Stealth_Circle_update_alert [of sentinel_near game_idle]
    by (simp add: p n sqrt_2500)
  moreover have "\<not> sc_detected (fst (Stealth_Circle_update game_idle sentinel_far))"
    using Stealth_Circle_update_alert [of sentinel_far game_idle]
    by (simp add: p f sqrt_90000)
  ultimately show ?thesis using n f by simp
qed

section \<open>The chaser\<close>

lemma sqrt_sum_zero_iff: "sqrt (a\<^sup>2 + b\<^sup>2) = 0 \<longleftrightarrow> a = 0 \<and> b = 0" for a b :: real
  by (simp add: add_nonneg_eq_0_iff)

lemma unit_vector:
  fixes a b :: real
  assumes "a \<noteq> 0 \<or> b \<noteq> 0"
  shows "(a / sqrt (a\<^sup>2 + b\<^sup>2))\<^sup>2 + (b / sqrt (a\<^sup>2 + b\<^sup>2))\<^sup>2 = 1"
proof -
  have pos: "0 < a\<^sup>2 + b\<^sup>2"
    using assms by (simp add: sum_power2_gt_zero_iff)
  have "(a / sqrt (a\<^sup>2 + b\<^sup>2))\<^sup>2 + (b / sqrt (a\<^sup>2 + b\<^sup>2))\<^sup>2
          = a\<^sup>2 / (a\<^sup>2 + b\<^sup>2) + b\<^sup>2 / (a\<^sup>2 + b\<^sup>2)"
    using pos by (simp add: power_divide)
  also have "\<dots> = (a\<^sup>2 + b\<^sup>2) / (a\<^sup>2 + b\<^sup>2)"
    by (simp only: add_divide_distrib)
  also have "\<dots> = 1"
    using assms by auto
  finally show ?thesis .
qed

lemma scaled_unit_length:
  fixes a b c :: real
  assumes "a \<noteq> 0 \<or> b \<noteq> 0" and "0 \<le> c"
  shows "sqrt ((a / sqrt (a\<^sup>2 + b\<^sup>2) * c)\<^sup>2 + (b / sqrt (a\<^sup>2 + b\<^sup>2) * c)\<^sup>2) = c"
proof -
  have "(u * c)\<^sup>2 + (v * c)\<^sup>2 = (u\<^sup>2 + v\<^sup>2) * c\<^sup>2" for u v :: real
    by (simp only: power_mult_distrib distrib_right)
  then have "(a / sqrt (a\<^sup>2 + b\<^sup>2) * c)\<^sup>2 + (b / sqrt (a\<^sup>2 + b\<^sup>2) * c)\<^sup>2
        = ((a / sqrt (a\<^sup>2 + b\<^sup>2))\<^sup>2 + (b / sqrt (a\<^sup>2 + b\<^sup>2))\<^sup>2) * c\<^sup>2" .
  also have "\<dots> = c\<^sup>2" by (simp add: unit_vector [OF assms(1)])
  finally show ?thesis using assms(2) by simp
qed

lemma chasing_coincide:
  assumes "Player_x (player g) = en_x e" "Player_y (player g) = en_y e"
  shows "chasing_to_player g e = Inr e"
  using assms by (simp add: chasing_to_player_def Let_def)

lemma chasing_apart:
  assumes "Player_x (player g) \<noteq> en_x e \<or> Player_y (player g) \<noteq> en_y e"
  shows "chasing_to_player g e =
           Inr (e\<lparr>en_x := en_x e + (Player_x (player g) - en_x e)
                       / sqrt ((Player_x (player g) - en_x e)\<^sup>2 + (Player_y (player g) - en_y e)\<^sup>2) * 1.2,
                   en_y := en_y e + (Player_y (player g) - en_y e)
                       / sqrt ((Player_x (player g) - en_x e)\<^sup>2 + (Player_y (player g) - en_y e)\<^sup>2) * 1.2\<rparr>)"
proof -
  have "sqrt ((Player_x (player g) - en_x e)\<^sup>2 + (Player_y (player g) - en_y e)\<^sup>2) \<noteq> 0"
    using assms by (simp add: sqrt_sum_zero_iff)
  then show ?thesis
    by (simp add: chasing_to_player_def Let_def py_truediv_def)
qed

text \<open>
  Claim C8. On every tick of the chaser no exception is raised. If the player's position
  coincides with the chaser's, the chaser's position is unchanged (the division is
  skipped); otherwise the position advances by exactly 1.2 along the unit vector from
  the chaser toward the player.
\<close>

theorem chasing_to_player_step:
  fixes g :: game and e :: Enemy
  defines "px \<equiv> Player_x (player g)" and "py \<equiv> Player_y (player g)"
  defines "d \<equiv> sqrt ((px - en_x e)\<^sup>2 + (py - en_y e)\<^sup>2)"
  shows "(case chasing_to_player g e of
            Inl err \<Rightarrow> False
          | Inr e' \<Rightarrow>
              (px = en_x e \<and> py = en_y e \<longrightarrow> en_x e' = en_x e \<and> en_y e' = en_y e)
            \<and> (px \<noteq> en_x e \<or> py \<noteq> en_y e \<longrightarrow>
                 en_x e' = en_x e + (px - en_x e) / d * 1.2
               \<and> en_y e' = en_y e + (py - en_y e) / d * 1.2
               \<and> ((px - en_x e) / d)\<^sup>2 + ((py - en_y e) / d)\<^sup>2 = 1
               \<and> sqrt ((en_x e' - en_x e)\<^sup>2 + (en_y e' - en_y e)\<^sup>2) = 1.2)
            \<and> en_size e' = en_size e \<and> en_color e' = en_color e
            \<and> Chasing_Enemy_update g e
                = Inr (e', if hits_player g e' then game_over_lose g else g))"
proof (cases "px = en_x e \<and> py = en_y e")
  case True
  then show ?thesis
    by (simp add: px_def py_def chasing_coincide Chasing_Enemy_update_def)
next
  case False
  then have ne: "Player_x (player g) \<noteq> en_x e \<or> Player_y (player g) \<noteq> en_y e"
    by (simp add: px_def py_def)
  then have nz: "Player_x (player g) - en_x e \<noteq> 0 \<or> Player_y (player g) - en_y e \<noteq> 0"
    by simp
  show ?thesis
    using ne unit_vector [OF nz] scaled_unit_length [OF nz, of "1.2"]
    by (simp add: px_def py_def d_def chasing_apart [OF ne] Chasing_Enemy_update_def)
qed

theorem chasing_to_player_step_witness:
  "Player_x (player game_idle) = 50 \<and> Player_y (player game_idle) = 250
   \<and> (case chasing_to_player game_idle chaser_on_player of
         Inl err \<Rightarrow> False
       | Inr e' \<Rightarrow> en_x e' = 50 \<and> en_y e' = 250)
   \<and> (case chasing_to_player game_idle chaser_example of
         Inl err \<Rightarrow> False
       | Inr e' \<Rightarrow> en_x e' = 20.72 \<and> en_y e' = 210.96)"
proof -
  have p: "Player_x (player game_idle) = 50" "Player_y (player game_idle) = 250"
    by (simp_all add: game_idle_def Player_x_def Player_y_def)
  have c: "en_x chaser_on_player = 50" "en_y chaser_on_player = 250"
    "en_x chaser_example = 20" "en_y chaser_example = 210"
    by (simp_all add: chaser_on_player_def chaser_example_def)
  have "case chasing_to_player game_idle chaser_on_player of
         Inl err \<Rightarrow> False
       | Inr e' \<Rightarrow> en_x e' = 50 \<and> en_y e' = 250"
    using chasing_to_player_step [of game_idle chaser_on_player]
    by (cases "chasing_to_player game_idle chaser_on_player") (simp_all add: p c)
  moreover have "case chasing_to_player game_idle chaser_example of
         Inl err \<Rightarrow> False
       | Inr e' \<Rightarrow> en_x e' = 20.72 \<and> en_y e' = 210.96"
    using chasing_to_player_step [of game_idle chaser_example]
    by (cases "chasing_to_player game_idle chaser_example") (simp_all add: p c sqrt_2500)
  ultimately show ?thesis using p by simp
qed

section \<open>Construction of enemies\<close>

text \<open>
  Claim C9, as stated, fails. It says that a negative size or speed makes the
  constructor fail with a validation error. A fencer of size -10 and speed -1 and a
  walker of size -20 are constructed like any other.
\<close>

theorem negative_size_and_speed_are_constructed:
  "FencingEnemy_init 0 0 (- 10) ''yellow'' (- 1)
     = Inr \<lparr>en_x = 0, en_y = 0, en_size = - 10, en_color = ''yellow'',
            fe_state = Fence_moving_right, fe_speed = - 1\<rparr>
   \<and> Enemy_walk_random_init 0 0 (- 20) ''Blue'' 6
     = Inr \<lparr>en_x = 0, en_y = 0, en_size = - 20, en_color = ''Blue'',
            rw_state = Walk_moving_right, rw_state_height = Walk_moving_down, rw_speed = 6\<rparr>"
  by (simp add: FencingEnemy_init_def Enemy_walk_random_init_def Enemy_init_def)

text \<open>
  Claim C9, amended. Constructing an enemy validates nothing: for every size, negative
  ones included, and for the fencer every speed, negative ones included, the constructor
  succeeds and returns an enemy that stores the size and the speed as given.
\<close>

theorem enemy_init_validates_nothing:
  "Enemy_init x0 y0 sz color
     = Inr \<lparr>en_x = x0, en_y = y0, en_size = sz, en_color = color\<rparr>
   \<and> Chasing_Enemy_init x0 y0 sz color
     = Inr \<lparr>en_x = x0, en_y = y0, en_size = sz, en_color = color\<rparr>
   \<and> FencingEnemy_init x0 y0 sz color speed
     = Inr \<lparr>en_x = x0, en_y = y0, en_size = sz, en_color = color,
            fe_state = Fence_moving_right, fe_speed = speed\<rparr>
   \<and> Enemy_walk_random_init x0 y0 sz color r
     = Inr \<lparr>en_x = x0, en_y = y0, en_size = sz, en_color = color,
            rw_state = Walk_moving_right, rw_state_height = Walk_moving_down, rw_speed = r\<rparr>
   \<and> Stealth_Circle_init x0 y0 sz color r
     = Inr \<lparr>en_x = x0, en_y = y0, en_size = sz, en_color = color,
            sc_speed = r, sc_detection = 100, sc_detected = False, sc_fill = color\<rparr>"
  by (simp add: Enemy_init_def Chasing_Enemy_init_def FencingEnemy_init_def
      Enemy_walk_random_init_def Stealth_Circle_init_def)

section \<open>The fencer\<close>

subsection \<open>One tick\<close>

lemma fence_right:
  assumes "fe_state e = Fence_moving_right"
  shows "fst (FencingEnemy_update g e) =
           (if en_x e < home_x (home g) + home_size (home g) / 2
            then e\<lparr>en_x := en_x e + fe_speed e\<rparr>
            else e\<lparr>fe_state := Fence_moving_down\<rparr>)"
  using assms by (simp add: FencingEnemy_update_def Let_def fence_moving_right_def move_to_def)

lemma fence_down:
  assumes "fe_state e = Fence_moving_down"
  shows "fst (FencingEnemy_update g e) =
           (if en_y e < home_y (home g) + home_size (home g) / 2
            then e\<lparr>en_y := en_y e + fe_speed e\<rparr>
            else e\<lparr>fe_state := Fence_moving_left\<rparr>)"
  using assms by (simp add: FencingEnemy_update_def Let_def fence_moving_down_def move_to_def)

lemma fence_left:
  assumes "fe_state e = Fence_moving_left"
  shows "fst (FencingEnemy_update g e) =
           (if en_x e > home_x (home g) - home_size (home g) / 2
            then e\<lparr>en_x := en_x e - fe_speed e\<rparr>
            else e\<lparr>fe_state := Fence_moving_up\<rparr>)"
  using assms by (simp add: FencingEnemy_update_def Let_def fence_moving_left_def move_to_def)

lemma fence_up:
  assumes "fe_state e = Fence_moving_up"
  shows "fst (FencingEnemy_update g e) =
           (if en_y e > home_y (home g) - home_size (home g) / 2
            then e\<lparr>en_y := en_y e - fe_speed e\<rparr>
            else e\<lparr>fe_state := Fence_moving_right\<rparr>)"
  using assms by (simp add: FencingEnemy_update_def Let_def fence_moving_up_def move_to_def)

lemma fence_turn_keeps_position:
  assumes "fe_state (fst (FencingEnemy_update g e)) \<noteq> fe_state e"
  shows "en_x (fst (FencingEnemy_update g e)) = en_x e"
    and "en_y (fst (FencingEnemy_update g e)) = en_y e"
  using assms
  by (cases "fe_state e"; simp add: fence_right fence_down fence_left fence_up split: if_splits)+

text \<open>
  Claim C6. The state of the fencer is one of moving right, down, left and up, and every
  transition goes to the next state of the cycle right, down, left, up, right, without
  skipping one. In each state the fencer moves by its speed along one axis while the
  coordinate of that axis has not reached the bound of the square derived from home's
  position and size, and it changes state once the coordinate has reached or passed the
  bound. This holds for every speed.
\<close>

theorem FencingEnemy_update_cycle:
  fixes g :: game and e :: FencingEnemy
  defines "e' \<equiv> fst (FencingEnemy_update g e)"
    and "x_max \<equiv> home_x (home g) + home_size (home g) / 2"
    and "y_max \<equiv> home_y (home g) + home_size (home g) / 2"
    and "x_min \<equiv> home_x (home g) - home_size (home g) / 2"
    and "y_min \<equiv> home_y (home g) - home_size (home g) / 2"
  shows "(fe_state e = Fence_moving_right \<longrightarrow>
            (en_x e < x_max \<longrightarrow> e' = e\<lparr>en_x := en_x e + fe_speed e\<rparr>)
          \<and> (x_max \<le> en_x e \<longrightarrow> e' = e\<lparr>fe_state := Fence_moving_down\<rparr>))
       \<and> (fe_state e = Fence_moving_down \<longrightarrow>
            (en_y e < y_max \<longrightarrow> e' = e\<lparr>en_y := en_y e + fe_speed e\<rparr>)
          \<and> (y_max \<le> en_y e \<longrightarrow> e' = e\<lparr>fe_state := Fence_moving_left\<rparr>))
       \<and> (fe_state e = Fence_moving_left \<longrightarrow>
            (x_min < en_x e \<longrightarrow> e' = e\<lparr>en_x := en_x e - fe_speed e\<rparr>)
          \<and> (en_x e \<le> x_min \<longrightarrow> e' = e\<lparr>fe_state := Fence_moving_up\<rparr>))
       \<and> (fe_state e = Fence_moving_up \<longrightarrow>
            (y_min < en_y e \<longrightarrow> e' = e\<lparr>en_y := en_y e - fe_speed e\<rparr>)
          \<and> (en_y e \<le> y_min \<longrightarrow> e' = e\<lparr>fe_state := Fence_moving_right\<rparr>))
       \<and> fe_state e' \<in> {Fence_moving_right, Fence_moving_down, Fence_moving_left, Fence_moving_up}
       \<and> (fe_state e' = fe_state e \<or> fe_state e' = cycle_next (fe_state e))
       \<and> fe_speed e' = fe_speed e"
  unfolding e'_def x_max_def y_max_def x_min_def y_min_def
  by (cases "fe_state e") (simp_all add: fence_right fence_down fence_left fence_up)

theorem FencingEnemy_update_cycle_witness:
  "fst (FencingEnemy_update game_idle fencer_at_corner) = fencer_at_corner\<lparr>en_x := 693\<rparr>
   \<and> fst (FencingEnemy_update game_idle fencer_past_edge)
       = fencer_past_edge\<lparr>fe_state := Fence_moving_down\<rparr>"
proof -
  have h: "home_x (home game_idle) = 700" "home_y (home game_idle) = 250"
    "home_size (home game_idle) = 20"
    by (simp_all add: game_idle_def)
  have c: "en_x fencer_at_corner = 690" "fe_state fencer_at_corner = Fence_moving_right"
    "fe_speed fencer_at_corner = 3"
    by (simp_all add: fencer_at_corner_def)
  have q: "en_x fencer_past_edge = 711" "fe_state fencer_past_edge = Fence_moving_right"
    by (simp_all add: fencer_past_edge_def)
  show ?thesis
    using FencingEnemy_update_cycle [of fencer_at_corner game_idle]
      FencingEnemy_update_cycle [of fencer_past_edge game_idle]
    by (simp add: h c q)
qed

subsection \<open>A whole patrol\<close>

lemma fencer_ticks_0: "fencer_ticks g 0 e = e"
  by (simp add: fencer_ticks_def)

lemma fencer_ticks_Suc:
  "fencer_ticks g (Suc k) e = fst (FencingEnemy_update g (fencer_ticks g k e))"
  by (simp add: fencer_ticks_def)

lemma fencer_ticks_add: "fencer_ticks g (m + k) e = fencer_ticks g m (fencer_ticks g k e)"
  by (simp add: fencer_ticks_def funpow_add)

lemma run_right:
  assumes "fe_state e = Fence_moving_right"
    and "\<forall>j<k. en_x e + real j * fe_speed e < home_x (home g) + home_size (home g) / 2"
  shows "fencer_ticks g k e = e\<lparr>en_x := en_x e + real k * fe_speed e\<rparr>"
  using assms(2)
proof (induction k)
  case 0
  show ?case by (simp add: fencer_ticks_0)
next
  case (Suc k)
  then have ih: "fencer_ticks g k e = e\<lparr>en_x := en_x e + real k * fe_speed e\<rparr>"
    and lt: "en_x e + real k * fe_speed e < home_x (home g) + home_size (home g) / 2"
    by simp_all
  show ?case
    using lt assms(1) by (simp add: fencer_ticks_Suc ih fence_right algebra_simps)
qed

lemma run_down:
  assumes "fe_state e = Fence_moving_down"
    and "\<forall>j<k. en_y e + real j * fe_speed e < home_y (home g) + home_size (home g) / 2"
  shows "fencer_ticks g k e = e\<lparr>en_y := en_y e + real k * fe_speed e\<rparr>"
  using assms(2)
proof (induction k)
  case 0
  show ?case by (simp add: fencer_ticks_0)
next
  case (Suc k)
  then have ih: "fencer_ticks g k e = e\<lparr>en_y := en_y e + real k * fe_speed e\<rparr>"
    and lt: "en_y e + real k * fe_speed e < home_y (home g) + home_size (home g) / 2"
    by simp_all
  show ?case
    using lt assms(1) by (simp add: fencer_ticks_Suc ih fence_down algebra_simps)
qed

lemma run_left:
  assumes "fe_state e = Fence_moving_left"
    and "\<forall>j<k. home_x (home g) - home_size (home g) / 2 < en_x e - real j * fe_speed e"
  shows "fencer_ticks g k e = e\<lparr>en_x := en_x e - real k * fe_speed e\<rparr>"
  using assms(2)
proof (induction k)
  case 0
  show ?case by (simp add: fencer_ticks_0)
next
  case (Suc k)
  then have ih: "fencer_ticks g k e = e\<lparr>en_x := en_x e - real k * fe_speed e\<rparr>"
    and lt: "home_x (home g) - home_size (home g) / 2 < en_x e - real k * fe_speed e"
    by simp_all
  show ?case
    using lt assms(1) by (simp add: fencer_ticks_Suc ih fence_left algebra_simps)
qed

lemma run_up:
  assumes "fe_state e = Fence_moving_up"
    and "\<forall>j<k. home_y (home g) - home_size (home g) / 2 < en_y e - real j * fe_speed e"
  shows "fencer_ticks g k e = e\<lparr>en_y := en_y e - real k * fe_speed e\<rparr>"
  using assms(2)
proof (induction k)
  case 0
  show ?case by (simp add: fencer_ticks_0)
next
  case (Suc k)
  then have ih: "fencer_ticks g k e = e\<lparr>en_y := en_y e - real k * fe_speed e\<rparr>"
    and lt: "home_y (home g) - home_size (home g) / 2 < en_y e - real k * fe_speed e"
    by simp_all
  show ?case
    using lt assms(1) by (simp add: fencer_ticks_Suc ih fence_up algebra_simps)
qed

lemma side_steps:
  fixes side speed :: real
  assumes "0 < speed" "0 < side"
  defines "n \<equiv> nat \<lceil>side / speed\<rceil>"
  shows "side \<le> real n * speed" and "\<And>j. j < n \<Longrightarrow> real j * speed < side" and "0 < n"
proof -
  have q: "0 < side / speed" using assms by simp
  then have c: "0 < \<lceil>side / speed\<rceil>" by simp
  then have rn: "real n = of_int \<lceil>side / speed\<rceil>" by (simp add: n_def)
  have "side / speed \<le> real n" unfolding rn by (rule le_of_int_ceiling)
  then show "side \<le> real n * speed" using assms(1) by (simp add: pos_divide_le_eq)
  show "0 < n" using c by (simp add: n_def)
  fix j assume "j < n"
  then have "int j < \<lceil>side / speed\<rceil>" using c by (simp add: n_def)
  then have "real j < side / speed" by (simp add: less_ceiling_iff)
  then show "real j * speed < side" using assms(1) by (simp add: pos_less_divide_eq)
qed

lemma fencer_trace:
  fixes g :: game and e :: FencingEnemy and j :: nat
  defines "n \<equiv> nat \<lceil>home_size (home g) / fe_speed e\<rceil>"
  assumes s: "0 < fe_speed e" and hs: "0 < home_size (home g)"
    and st: "fe_state e = Fence_moving_right"
    and x0: "en_x e = home_x (home g) - home_size (home g) / 2"
    and y0: "en_y e = home_y (home g) - home_size (home g) / 2"
    and j: "j \<le> n"
  shows "fencer_ticks g j e = e\<lparr>en_x := en_x e + real j * fe_speed e\<rparr>"
    and "fencer_ticks g (n + 1 + j) e =
           e\<lparr>en_x := en_x e + real n * fe_speed e, fe_state := Fence_moving_down,
             en_y := en_y e + real j * fe_speed e\<rparr>"
    and "fencer_ticks g (2 * n + 2 + j) e =
           e\<lparr>en_y := en_y e + real n * fe_speed e, fe_state := Fence_moving_left,
             en_x := en_x e + real n * fe_speed e - real j * fe_speed e\<rparr>"
    and "fencer_ticks g (3 * n + 3 + j) e =
           e\<lparr>fe_state := Fence_moving_up,
             en_y := en_y e + real n * fe_speed e - real j * fe_speed e\<rparr>"
    and "fencer_ticks g (4 * n + 4) e = e"
proof -
  have ge: "home_size (home g) \<le> real n * fe_speed e"
    unfolding n_def using side_steps(1) [OF s hs] .
  have lt: "real i * fe_speed e < home_size (home g)" if "i < n" for i
    using that side_steps(2) [OF s hs] unfolding n_def by blast
  have lt': "real i * fe_speed e < real n * fe_speed e" if "i < n" for i
    using that s by simp
  have turn: "fencer_ticks g (Suc m) e = fst (FencingEnemy_update g e')"
    if "fencer_ticks g m e = e'" for m e'
    using that by (simp add: fencer_ticks_Suc)
  \<comment> \<open>moving right\<close>
  have A: "fencer_ticks g k e = e\<lparr>en_x := en_x e + real k * fe_speed e\<rparr>" if "k \<le> n" for k
  proof (rule run_right [OF st])
    show "\<forall>i<k. en_x e + real i * fe_speed e < home_x (home g) + home_size (home g) / 2"
    proof (intro allI impI)
      fix i assume "i < k"
      then have "real i * fe_speed e < home_size (home g)" using that lt by simp
      then show "en_x e + real i * fe_speed e < home_x (home g) + home_size (home g) / 2"
        by (simp add: x0)
    qed
  qed
  show "fencer_ticks g j e = e\<lparr>en_x := en_x e + real j * fe_speed e\<rparr>"
    using A [OF j] .
  define e2 where "e2 = e\<lparr>en_x := en_x e + real n * fe_speed e, fe_state := Fence_moving_down\<rparr>"
  have t2: "fencer_ticks g (n + 1) e = e2"
    using ge by (simp add: fencer_ticks_Suc A [of n] fence_right st x0 e2_def)
  \<comment> \<open>moving down\<close>
  have B: "fencer_ticks g (n + 1 + k) e = e2\<lparr>en_y := en_y e + real k * fe_speed e\<rparr>"
    if "k \<le> n" for k
  proof -
    have "fencer_ticks g k e2 = e2\<lparr>en_y := en_y e2 + real k * fe_speed e2\<rparr>"
    proof (rule run_down)
      show "fe_state e2 = Fence_moving_down" by (simp add: e2_def)
      show "\<forall>i<k. en_y e2 + real i * fe_speed e2 < home_y (home g) + home_size (home g) / 2"
      proof (intro allI impI)
        fix i assume "i < k"
        then have "real i * fe_speed e < home_size (home g)" using that lt by simp
        then show "en_y e2 + real i * fe_speed e2 < home_y (home g) + home_size (home g) / 2"
          by (simp add: e2_def y0)
      qed
    qed
    then show ?thesis
      using fencer_ticks_add [of g k "n + 1" e] unfolding t2 by (simp add: add.commute e2_def)
  qed
  show "fencer_ticks g (n + 1 + j) e =
           e\<lparr>en_x := en_x e + real n * fe_speed e, fe_state := Fence_moving_down,
             en_y := en_y e + real j * fe_speed e\<rparr>"
    using B [OF j] by (simp add: e2_def)
  define e4 where "e4 = e2\<lparr>en_y := en_y e + real n * fe_speed e, fe_state := Fence_moving_left\<rparr>"
  have t4: "fencer_ticks g (2 * n + 2) e = e4"
  proof -
    have eq: "2 * n + 2 = Suc (n + 1 + n)" by simp
    have "fst (FencingEnemy_update g (e2\<lparr>en_y := en_y e + real n * fe_speed e\<rparr>)) = e4"
      using ge by (simp add: fence_down y0 e2_def e4_def)
    then show ?thesis unfolding eq turn [OF B [OF order_refl]] .
  qed
  \<comment> \<open>moving left\<close>
  have C: "fencer_ticks g (2 * n + 2 + k) e =
             e4\<lparr>en_x := en_x e + real n * fe_speed e - real k * fe_speed e\<rparr>"
    if "k \<le> n" for k
  proof -
    have "fencer_ticks g k e4 = e4\<lparr>en_x := en_x e4 - real k * fe_speed e4\<rparr>"
    proof (rule run_left)
      show "fe_state e4 = Fence_moving_left" by (simp add: e4_def)
      show "\<forall>i<k. home_x (home g) - home_size (home g) / 2 < en_x e4 - real i * fe_speed e4"
      proof (intro allI impI)
        fix i assume "i < k"
        then have "real i * fe_speed e < real n * fe_speed e" using that lt' by simp
        then show "home_x (home g) - home_size (home g) / 2 < en_x e4 - real i * fe_speed e4"
          by (simp add: e4_def e2_def x0)
      qed
    qed
    then show ?thesis
      using fencer_ticks_add [of g k "2 * n + 2" e] unfolding t4
      by (simp add: add.commute e4_def e2_def)
  qed
  show "fencer_ticks g (2 * n + 2 + j) e =
           e\<lparr>en_y := en_y e + real n * fe_speed e, fe_state := Fence_moving_left,
             en_x := en_x e + real n * fe_speed e - real j * fe_speed e\<rparr>"
    using C [OF j] by (simp add: e4_def e2_def)
  define e6 where "e6 = e\<lparr>en_y := en_y e + real n * fe_speed e, fe_state := Fence_moving_up\<rparr>"
  have t6: "fencer_ticks g (3 * n + 3) e = e6"
  proof -
    have eq: "3 * n + 3 = Suc (2 * n + 2 + n)" by simp
    have "fst (FencingEnemy_update g
            (e4\<lparr>en_x := en_x e + real n * fe_speed e - real n * fe_speed e\<rparr>)) = e6"
      by (simp add: fence_left x0 e2_def e4_def e6_def)
    then show ?thesis unfolding eq turn [OF C [OF order_refl]] .
  qed
  \<comment> \<open>moving up\<close>
  have D: "fencer_ticks g (3 * n + 3 + k) e =
             e6\<lparr>en_y := en_y e + real n * fe_speed e - real k * fe_speed e\<rparr>"
    if "k \<le> n" for k
  proof -
    have "fencer_ticks g k e6 = e6\<lparr>en_y := en_y e6 - real k * fe_speed e6\<rparr>"
    proof (rule run_up)
      show "fe_state e6 = Fence_moving_up" by (simp add: e6_def)
      show "\<forall>i<k. home_y (home g) - home_size (home g) / 2 < en_y e6 - real i * fe_speed e6"
      proof (intro allI impI)
        fix i assume "i < k"
        then have "real i * fe_speed e < real n * fe_speed e" using that lt' by simp
        then show "home_y (home g) - home_size (home g) / 2 < en_y e6 - real i * fe_speed e6"
          by (simp add: e6_def y0)
      qed
    qed
    then show ?thesis
      using fencer_ticks_add [of g k "3 * n + 3" e] unfolding t6 by (simp add: add.commute e6_def)
  qed
  show "fencer_ticks g (3 * n + 3 + j) e =
           e\<lparr>fe_state := Fence_moving_up,
             en_y := en_y e + real n * fe_speed e - real j * fe_speed e\<rparr>"
    using D [OF j] by (simp add: e6_def)
  have eq: "4 * n + 4 = Suc (3 * n + 3 + n)" by simp
  have "fst (FencingEnemy_update g
          (e6\<lparr>en_y := en_y e + real n * fe_speed e - real n * fe_speed e\<rparr>)) = e"
    using st by (simp add: fence_up y0 e6_def)
  then show "fencer_ticks g (4 * n + 4) e = e" unfolding eq turn [OF D [OF order_refl]] .
qed

lemma ceiling_20_3: "\<lceil>20 / 3 :: real\<rceil> = 7"
  by (simp add: ceiling_eq_iff)

text \<open>
  Claim C10. On a tick of the fencer in which the state changes, the position does not
  change: the transition takes the whole tick. So a patrol at a speed \<open>s > 0\<close> around a
  home of size \<open>h > 0\<close>, started on the corner where the generator puts the fencer, takes
  \<open>4 * n + 4\<close> ticks with \<open>n\<close> the ceiling of \<open>h / s\<close>: \<open>n\<close> ticks of motion and one
  tick of transition on each side, after which the fencer is back in its first state.
  That is strictly more than the perimeter \<open>4 * h\<close> divided by \<open>s\<close>.
\<close>

theorem FencingEnemy_turn_takes_a_tick:
  fixes g :: game and e :: FencingEnemy
  defines "n \<equiv> nat \<lceil>home_size (home g) / fe_speed e\<rceil>"
  shows "(fe_state (fst (FencingEnemy_update g e)) \<noteq> fe_state e \<longrightarrow>
            en_x (fst (FencingEnemy_update g e)) = en_x e
          \<and> en_y (fst (FencingEnemy_update g e)) = en_y e)
       \<and> (0 < fe_speed e \<and> 0 < home_size (home g) \<and> fe_state e = Fence_moving_right
          \<and> en_x e = home_x (home g) - home_size (home g) / 2
          \<and> en_y e = home_y (home g) - home_size (home g) / 2 \<longrightarrow>
            fencer_ticks g (4 * n + 4) e = e
          \<and> (\<forall>k. k \<le> n \<longrightarrow> fe_state (fencer_ticks g k e) = Fence_moving_right)
          \<and> (\<forall>k. n < k \<and> k \<le> 2 * n + 1 \<longrightarrow>
                 fe_state (fencer_ticks g k e) = Fence_moving_down)
          \<and> (\<forall>k. 2 * n + 1 < k \<and> k \<le> 3 * n + 2 \<longrightarrow>
                 fe_state (fencer_ticks g k e) = Fence_moving_left)
          \<and> (\<forall>k. 3 * n + 2 < k \<and> k \<le> 4 * n + 3 \<longrightarrow>
                 fe_state (fencer_ticks g k e) = Fence_moving_up)
          \<and> 4 * home_size (home g) / fe_speed e < real (4 * n + 4))"
proof (intro conjI impI)
  assume "fe_state (fst (FencingEnemy_update g e)) \<noteq> fe_state e"
  then show "en_x (fst (FencingEnemy_update g e)) = en_x e"
    "en_y (fst (FencingEnemy_update g e)) = en_y e"
    by (rule fence_turn_keeps_position)+
next
  assume a: "0 < fe_speed e \<and> 0 < home_size (home g) \<and> fe_state e = Fence_moving_right
          \<and> en_x e = home_x (home g) - home_size (home g) / 2
          \<and> en_y e = home_y (home g) - home_size (home g) / 2"
  then have s: "0 < fe_speed e" and hs: "0 < home_size (home g)"
    and st: "fe_state e = Fence_moving_right"
    and x0: "en_x e = home_x (home g) - home_size (home g) / 2"
    and y0: "en_y e = home_y (home g) - home_size (home g) / 2"
    by simp_all
  note tr = fencer_trace [OF s hs st x0 y0, folded n_def]
  show "fencer_ticks g (4 * n + 4) e = e" by (rule tr(5) [OF le_refl])
  show "\<forall>k. k \<le> n \<longrightarrow> fe_state (fencer_ticks g k e) = Fence_moving_right"
    by (simp add: tr(1) st)
  show "\<forall>k. n < k \<and> k \<le> 2 * n + 1 \<longrightarrow> fe_state (fencer_ticks g k e) = Fence_moving_down"
  proof (intro allI impI)
    fix k assume r: "n < k \<and> k \<le> 2 * n + 1"
    define j where "j = k - (n + 1)"
    with r have j: "j \<le> n" and k: "k = n + 1 + j"
      by arith+
    show "fe_state (fencer_ticks g k e) = Fence_moving_down"
      unfolding k tr(2) [OF j] by simp
  qed
  show "\<forall>k. 2 * n + 1 < k \<and> k \<le> 3 * n + 2 \<longrightarrow> fe_state (fencer_ticks g k e) = Fence_moving_left"
  proof (intro allI impI)
    fix k assume r: "2 * n + 1 < k \<and> k \<le> 3 * n + 2"
    define j where "j = k - (2 * n + 2)"
    with r have j: "j \<le> n" and k: "k = 2 * n + 2 + j"
      by arith+
    show "fe_state (fencer_ticks g k e) = Fence_moving_left"
      unfolding k tr(3) [OF j] by simp
  qed
  show "\<forall>k. 3 * n + 2 < k \<and> k \<le> 4 * n + 3 \<longrightarrow> fe_state (fencer_ticks g k e) = Fence_moving_up"
  proof (intro allI impI)
    fix k assume r: "3 * n + 2 < k \<and> k \<le> 4 * n + 3"
    define j where "j = k - (3 * n + 3)"
    with r have j: "j \<le> n" and k: "k = 3 * n + 3 + j"
      by arith+
    show "fe_state (fencer_ticks g k e) = Fence_moving_up"
      unfolding k tr(4) [OF j] by simp
  qed
  have "home_size (home g) \<le> real n * fe_speed e"
    unfolding n_def by (rule side_steps(1) [OF s hs])
  then have "home_size (home g) / fe_speed e \<le> real n"
    using s by (simp add: pos_divide_le_eq)
  then show "4 * home_size (home g) / fe_speed e < real (4 * n + 4)"
    by simp
qed

theorem FencingEnemy_turn_takes_a_tick_witness:
  "fe_state (fst (FencingEnemy_update game_idle fencer_past_edge)) = Fence_moving_down
   \<and> en_x (fst (FencingEnemy_update game_idle fencer_past_edge)) = 711
   \<and> en_y (fst (FencingEnemy_update game_idle fencer_past_edge)) = 240
   \<and> fencer_ticks game_idle 32 fencer_at_corner = fencer_at_corner
   \<and> fe_state (fencer_ticks game_idle 7 fencer_at_corner) = Fence_moving_right
   \<and> fe_state (fencer_ticks game_idle 8 fencer_at_corner) = Fence_moving_down
   \<and> fe_state (fencer_ticks game_idle 16 fencer_at_corner) = Fence_moving_left
   \<and> fe_state (fencer_ticks game_idle 24 fencer_at_corner) = Fence_moving_up
   \<and> (4 * 20 / 3 :: real) < 32"
proof -
  have h: "home_x (home game_idle) = 700" "home_y (home game_idle) = 250"
    "home_size (home game_idle) = 20"
    by (simp_all add: game_idle_def)
  have c: "en_x fencer_at_corner = 690" "en_y fencer_at_corner = 240"
    "fe_state fencer_at_corner = Fence_moving_right" "fe_speed fencer_at_corner = 3"
    by (simp_all add: fencer_at_corner_def)
  have p: "fe_state (fst (FencingEnemy_update game_idle fencer_past_edge)) = Fence_moving_down"
    by (simp add: fence_right fencer_past_edge_def h)
  have q: "en_x fencer_past_edge = 711" "en_y fencer_past_edge = 240"
    "fe_state fencer_past_edge = Fence_moving_right"
    by (simp_all add: fencer_past_edge_def)
  have "en_x (fst (FencingEnemy_update game_idle fencer_past_edge)) = 711
      \<and> en_y (fst (FencingEnemy_update game_idle fencer_past_edge)) = 240"
    using FencingEnemy_turn_takes_a_tick [of game_idle fencer_past_edge] by (simp add: p q)
  moreover have "fencer_ticks game_idle 32 fencer_at_corner = fencer_at_corner
   \<and> fe_state (fencer_ticks game_idle 7 fencer_at_corner) = Fence_moving_right
   \<and> fe_state (fencer_ticks game_idle 8 fencer_at_corner) = Fence_moving_down
   \<and> fe_state (fencer_ticks game_idle 16 fencer_at_corner) = Fence_moving_left
   \<and> fe_state (fencer_ticks game_idle 24 fencer_at_corner) = Fence_moving_up"
    using FencingEnemy_turn_takes_a_tick [of game_idle fencer_at_corner]
    by (simp add: h c ceiling_20_3)
  ultimately show ?thesis using p by simp
qed

end
